theory Spec2Isabelle
  imports Complex_Main "HOL-Library.Word"
begin

section \<open>Go values used by providers/windows/host\_windows.go\<close>

type_synonym u16 = "16 word"
type_synonym u32 = "32 word"
type_synonym u64 = "64 word"

text \<open>
  A Go function either returns or panics. Only the slice expressions of
  \<open>getComputerNameEx\<close> can panic in this file.
\<close>

datatype 'a go = Return 'a | Panic string

subsection \<open>Errors\<close>

text \<open>
  The error values that reach this file: the sentinel \<open>types.ErrNotImplemented\<close>,
  a \<open>syscall.Errno\<close>, an error that only carries a message (\<open>errors.New\<close>, or
  \<open>fmt.Errorf\<close> without \<open>%w\<close>), and \<open>fmt.Errorf\<close> with \<open>%w\<close>, which keeps the
  wrapped error behind \<open>Unwrap\<close>. \<open>WrapError p e\<close> is the error whose format string is
  the prefix \<open>p\<close> followed by \<open>%w\<close>.
\<close>

datatype error =
    ErrNotImplemented
  | Errno nat
  | ErrorString string
  | WrapError string error

definition ERROR_MORE_DATA :: error where
  "ERROR_MORE_DATA = Errno 234"

text \<open>
  \<open>errors.Is\<close>: compare, then follow \<open>Unwrap\<close>. The two targets of this file are a
  sentinel and an \<open>Errno\<close>, which Go compares by identity and by value; the \<open>Is\<close>
  method of \<open>Errno\<close> answers only for the \<open>oserror\<close> targets, so it never applies here.
\<close>

fun errors_Is :: "error \<Rightarrow> error \<Rightarrow> bool" where
  "errors_Is (WrapError p e) target = (WrapError p e = target \<or> errors_Is e target)"
| "errors_Is e target = (e = target)"

text \<open>
  The \<open>Error()\<close> method. The text of an \<open>Errno\<close> comes from the operating system's
  message table, which is the parameter \<open>msg\<close>. \<open>types.ErrNotImplemented\<close> is
  \<open>errors.New("unimplemented")\<close>.
\<close>

fun Error :: "(nat \<Rightarrow> string) \<Rightarrow> error \<Rightarrow> string" where
  "Error msg ErrNotImplemented = ''unimplemented''"
| "Error msg (Errno n) = msg n"
| "Error msg (ErrorString s) = s"
| "Error msg (WrapError p e) = p @ Error msg e"

subsection \<open>Strings\<close>

text \<open>\<open>strings.HasSuffix\<close> and \<open>strings.TrimSuffix\<close>, on byte strings.\<close>

definition HasSuffix :: "string \<Rightarrow> string \<Rightarrow> bool" where
  "HasSuffix s suffix =
     (length s \<ge> length suffix \<and> drop (length s - length suffix) s = suffix)"

definition TrimSuffix :: "string \<Rightarrow> string \<Rightarrow> string" where
  "TrimSuffix s suffix =
     (if HasSuffix s suffix then take (length s - length suffix) s else s)"

text \<open>
  \<open>syscall.UTF16ToString\<close> on Windows: cut at the first NUL, then \<open>decodeWTF16\<close>.
  A unit outside the surrogate range is its own code point, a high surrogate
  followed by a low one is the code point of the pair, and a surrogate without its
  partner is kept as the code point of the unit itself (WTF-8; before Go 1.21 it
  became U+FFFD). Each code point is then written in UTF-8; for a lone surrogate
  that is the three-byte form, as \<open>decodeWTF16\<close> writes it.
\<close>

fun decodeWTF16 :: "u16 list \<Rightarrow> nat list" where
  "decodeWTF16 [] = []"
| "decodeWTF16 [r] = [unat r]"
| "decodeWTF16 (r # r2 # rs) =
     (if r < 0xD800 \<or> 0xE000 \<le> r then unat r # decodeWTF16 (r2 # rs)
      else if r < 0xDC00 \<and> 0xDC00 \<le> r2 \<and> r2 < 0xE000
      then ((unat r - 0xD800) * 1024 + (unat r2 - 0xDC00) + 0x10000) # decodeWTF16 rs
      else unat r # decodeWTF16 (r2 # rs))"

definition utf8_EncodeRune :: "nat \<Rightarrow> string" where
  "utf8_EncodeRune r =
     (if r < 0x80 then [char_of r]
      else if r < 0x800 then [char_of (0xC0 + r div 64), char_of (0x80 + r mod 64)]
      else if r < 0x10000
      then [char_of (0xE0 + r div 4096), char_of (0x80 + r div 64 mod 64),
            char_of (0x80 + r mod 64)]
      else [char_of (0xF0 + r div 262144), char_of (0x80 + r div 4096 mod 64),
            char_of (0x80 + r div 64 mod 64), char_of (0x80 + r mod 64)])"

definition UTF16ToString :: "u16 list \<Rightarrow> string" where
  "UTF16ToString s = concat (map utf8_EncodeRune (decodeWTF16 (takeWhile (\<lambda>v. v \<noteq> 0) s)))"

section \<open>getComputerNameEx\<close>

text \<open>
  \<open>stdwindows.GetComputerNameEx(name, &buff[0], &size)\<close> is the operating system. It
  is a parameter of the model: a closure with a state of its own (so that it may
  answer differently at every call) that receives the name type, the buffer and the
  size, and answers with the error it returns, the value it leaves in \<open>size\<close>, and the
  units it writes from the start of the buffer.
\<close>

record os_reply =
  reply_err :: "error option"
  reply_size :: u32
  reply_data :: "u16 list"

type_synonym 's os_call = "'s \<Rightarrow> u32 \<Rightarrow> u16 list \<Rightarrow> u32 \<Rightarrow> os_reply \<times> 's"

text \<open>The call writes into the caller's buffer; it cannot change the buffer's length.\<close>

definition os_write :: "u16 list \<Rightarrow> u16 list \<Rightarrow> u16 list" where
  "os_write buff data = take (length buff) data @ drop (length data) buff"

definition ComputerNamePhysicalDnsFullyQualified :: u32 where
  "ComputerNamePhysicalDnsFullyQualified = 7"

text \<open>
  What one iteration of the \<open>for\<close> loop does after the OS call has answered: return,
  panic (\<open>buff[:size]\<close> beyond the capacity), or go round again with the new size.
\<close>

datatype iteration = Done "(string \<times> error option) go" | Continue u32

definition after_call :: "u16 list \<Rightarrow> os_reply \<Rightarrow> iteration" where
  "after_call buff0 r =
     (let buff = os_write buff0 (reply_data r); sz = reply_size r in
      case reply_err r of
        None \<Rightarrow>
          if unat sz \<le> length buff
          then Done (Return (UTF16ToString (take (unat sz) buff), None))
          else Done (Panic ''slice bounds out of range'')
      | Some err \<Rightarrow>
          if errors_Is err ERROR_MORE_DATA then
            if sz \<le> of_nat (length buff)
            then Done (Return ('''', Some (ErrorString
              ''windows.GetComputerNameEx returned ERROR_MORE_DATA, but data size should fit into buffer'')))
            else Continue sz
          else Done (Return ('''', Some (WrapError
            ''could not get windows FQDN: could not get windows.ComputerNamePhysicalDnsFullyQualified: ''
            err))))"

text \<open>
  The loop. The state is the OS state, the current \<open>size\<close> and the number of OS calls
  made so far; the result is what the function returns, the OS state it leaves and
  the number of OS calls. \<open>&buff[0]\<close> panics on an empty buffer.
\<close>

function getComputerNameEx_loop ::
  "'s os_call \<Rightarrow> u32 \<Rightarrow> 's \<Rightarrow> u32 \<Rightarrow> nat \<Rightarrow> (string \<times> error option) go \<times> 's \<times> nat" where
  "getComputerNameEx_loop call name s sz n =
     (if sz = 0 then (Panic ''index out of range'', s, n)
      else
        let buff = replicate (unat sz) 0;
            rs = call s name buff sz
        in case after_call buff (fst rs) of
             Done res \<Rightarrow> (res, snd rs, Suc n)
           | Continue sz' \<Rightarrow> getComputerNameEx_loop call name (snd rs) sz' (Suc n))"
  by pat_completeness auto

termination
proof (relation "measure (\<lambda>(call, name, s, sz, n). 2 ^ 32 - unat sz)")
  show "wf (measure (\<lambda>(call :: 's os_call, name :: u32, s :: 's, sz :: u32, n :: nat).
          2 ^ 32 - unat sz))"
    by simp
next
  fix call :: "'s os_call" and name :: u32 and s :: 's and sz :: u32 and n :: nat
    and buff :: "u16 list" and rs :: "os_reply \<times> 's" and sz' :: u32
  assume b: "buff = replicate (unat sz) 0"
    and c: "after_call buff (fst rs) = Continue sz'"
  have "length (os_write buff (reply_data (fst rs))) = unat sz"
    using b by (simp add: os_write_def)
  with c have "sz < sz'"
    by (auto simp: after_call_def Let_def split: option.splits if_splits)
  then have "unat sz < unat sz'"
    by (simp add: word_less_nat_alt)
  moreover have "unat sz' < 2 ^ 32"
    using unsigned_less [of sz'] by simp
  ultimately show "((call, name, snd rs, sz', Suc n), (call, name, s, sz, n))
      \<in> measure (\<lambda>(call, name, s, sz, n). 2 ^ 32 - unat sz)"
    by simp
qed

definition getComputerNameEx ::
  "'s os_call \<Rightarrow> u32 \<Rightarrow> 's \<Rightarrow> (string \<times> error option) go \<times> 's \<times> nat" where
  "getComputerNameEx call name s = getComputerNameEx_loop call name s 64 0"

declare getComputerNameEx_loop.simps [simp del]

section \<open>The host record and its readers\<close>

text \<open>
  \<open>types.HostInfo\<close>, with the fields this file assigns. \<open>time.Time\<close> is an instant
  counted from Go's zero time, a nil slice is the empty list and a nil \<open>*OSInfo\<close> is
  \<open>None\<close>.
\<close>

type_synonym time = int

text \<open>
  Modelled from the spec: \<open>types.OSInfo\<close> is declared outside this file; the spec's
  data model calls it a structured OS descriptor of name, version and build.
\<close>

record OSInfo =
  Name :: string
  Version :: string
  Build :: string

record HostInfo =
  Architecture :: string
  BootTime :: time
  Hostname :: string
  FQDN :: string
  IPs :: "string list"
  MACs :: "string list"
  KernelVersion :: string
  OS :: "OSInfo option"
  Timezone :: string
  TimezoneOffsetSec :: int
  UniqueID :: string

definition zero_HostInfo :: HostInfo where
  "zero_HostInfo =
     \<lparr>Architecture = '''', BootTime = 0, Hostname = '''', FQDN = '''', IPs = [], MACs = [],
      KernelVersion = '''', OS = None, Timezone = '''', TimezoneOffsetSec = 0,
      UniqueID = ''''\<rparr>"

record host =
  info :: HostInfo

record reader =
  errs :: "error list"

text \<open>\<open>multierror.MultiError\<close>, the error \<open>reader.Err\<close> builds.\<close>

datatype multi_error = MultiError "error list"

text \<open>
  Everything \<open>newHost\<close> asks of the outside world: the answer of each platform query
  as Go returns it (a value together with an error, which is nil or not), the OS call
  behind \<open>getComputerNameEx\<close> with its starting state, the zone of \<open>time.Now()\<close>, and
  the message table of \<open>Errno\<close>.
\<close>

record 's env =
  q_Architecture :: "string \<times> error option"
  q_BootTime :: "time \<times> error option"
  q_Hostname :: "string \<times> error option"
  q_GetComputerNameEx :: "'s os_call"
  q_os_state :: 's
  q_Network :: "string list \<times> string list \<times> error option"
  q_KernelVersion :: "string \<times> error option"
  q_OperatingSystem :: "OSInfo option \<times> error option"
  q_Zone :: "string \<times> int"
  q_MachineID :: "string \<times> error option"
  q_errno_text :: "nat \<Rightarrow> string"

text \<open>The reader's methods take the reader and the host and give both back.\<close>

definition addErr :: "reader \<Rightarrow> error option \<Rightarrow> bool \<times> reader" where
  "addErr r err =
     (case err of
        Some e \<Rightarrow>
          (True, if \<not> errors_Is e ErrNotImplemented then r\<lparr>errs := errs r @ [e]\<rparr> else r)
      | None \<Rightarrow> (False, r))"

definition Err :: "reader \<Rightarrow> multi_error option" where
  "Err r = (if length (errs r) > 0 then Some (MultiError (errs r)) else None)"

definition architecture :: "'s env \<Rightarrow> reader \<Rightarrow> host \<Rightarrow> reader \<times> host" where
  "architecture env r h =
     (let (v, err) = q_Architecture env; (failed, r') = addErr r err in
      if failed then (r', h) else (r', h\<lparr>info := (info h)\<lparr>Architecture := v\<rparr>\<rparr>))"

definition bootTime :: "'s env \<Rightarrow> reader \<Rightarrow> host \<Rightarrow> reader \<times> host" where
  "bootTime env r h =
     (let (v, err) = q_BootTime env; (failed, r') = addErr r err in
      if failed then (r', h) else (r', h\<lparr>info := (info h)\<lparr>BootTime := v\<rparr>\<rparr>))"

definition hostname :: "'s env \<Rightarrow> reader \<Rightarrow> host \<Rightarrow> reader \<times> host" where
  "hostname env r h =
     (let (v, err) = q_Hostname env; (failed, r') = addErr r err in
      if failed then (r', h) else (r', h\<lparr>info := (info h)\<lparr>Hostname := v\<rparr>\<rparr>))"

text \<open>
  \<open>fqdn\<close> formats the error of \<open>getComputerNameEx\<close> with \<open>%s\<close>: what it hands to
  \<open>addErr\<close> is a new error that carries the message only. A panic of
  \<open>getComputerNameEx\<close> goes through \<open>fqdn\<close> and \<open>newHost\<close>.
\<close>

definition fqdn :: "'s env \<Rightarrow> reader \<Rightarrow> host \<Rightarrow> (reader \<times> host) go" where
  "fqdn env r h =
     (case fst (getComputerNameEx (q_GetComputerNameEx env)
                  ComputerNamePhysicalDnsFullyQualified (q_os_state env)) of
        Panic p \<Rightarrow> Panic p
      | Return (name, err) \<Rightarrow>
          (case err of
             Some e \<Rightarrow>
               Return (snd (addErr r (Some (ErrorString
                 (''could not get windows FQDN: '' @ Error (q_errno_text env) e)))), h)
           | None \<Rightarrow> Return (r, h\<lparr>info := (info h)\<lparr>FQDN := TrimSuffix name ''.''\<rparr>\<rparr>)))"

definition network :: "'s env \<Rightarrow> reader \<Rightarrow> host \<Rightarrow> reader \<times> host" where
  "network env r h =
     (let (ips, macs, err) = q_Network env; (failed, r') = addErr r err in
      if failed then (r', h) else (r', h\<lparr>info := (info h)\<lparr>IPs := ips, MACs := macs\<rparr>\<rparr>))"

definition kernelVersion :: "'s env \<Rightarrow> reader \<Rightarrow> host \<Rightarrow> reader \<times> host" where
  "kernelVersion env r h =
     (let (v, err) = q_KernelVersion env; (failed, r') = addErr r err in
      if failed then (r', h) else (r', h\<lparr>info := (info h)\<lparr>KernelVersion := v\<rparr>\<rparr>))"

definition os :: "'s env \<Rightarrow> reader \<Rightarrow> host \<Rightarrow> reader \<times> host" where
  "os env r h =
     (let (v, err) = q_OperatingSystem env; (failed, r') = addErr r err in
      if failed then (r', h) else (r', h\<lparr>info := (info h)\<lparr>OS := v\<rparr>\<rparr>))"

definition time :: "'s env \<Rightarrow> reader \<Rightarrow> host \<Rightarrow> reader \<times> host" where
  "time env r h =
     (r, h\<lparr>info := (info h)\<lparr>Timezone := fst (q_Zone env),
                              TimezoneOffsetSec := snd (q_Zone env)\<rparr>\<rparr>)"

definition uniqueID :: "'s env \<Rightarrow> reader \<Rightarrow> host \<Rightarrow> reader \<times> host" where
  "uniqueID env r h =
     (let (v, err) = q_MachineID env; (failed, r') = addErr r err in
      if failed then (r', h) else (r', h\<lparr>info := (info h)\<lparr>UniqueID := v\<rparr>\<rparr>))"

definition newHost :: "'s env \<Rightarrow> (host \<times> multi_error option) go" where
  "newHost env =
     (let h = \<lparr>info = zero_HostInfo\<rparr>;
          r = \<lparr>errs = []\<rparr>;
          (r, h) = architecture env r h;
          (r, h) = bootTime env r h;
          (r, h) = hostname env r h
      in case fqdn env r h of
           Panic p \<Rightarrow> Panic p
         | Return (r, h) \<Rightarrow>
             (let (r, h) = network env r h;
                  (r, h) = kernelVersion env r h;
                  (r, h) = os env r h;
                  (r, h) = time env r h;
                  (r, h) = uniqueID env r h
              in Return (h, Err r)))"

section \<open>The host handle\<close>

text \<open>
  \<open>windows.GetSystemTimes\<close> and \<open>windows.GlobalMemoryStatusEx\<close> are the operating
  system; their answers are arguments. A \<open>time.Duration\<close> is an integer.
\<close>

record CPUTimes =
  System :: int
  User :: int
  Idle :: int

record MemoryStatusEx =
  TotalPhys :: u64
  AvailPhys :: u64
  TotalPageFile :: u64
  AvailPageFile :: u64

record HostMemoryInfo =
  Total :: u64
  Used :: u64
  Free :: u64
  Available :: u64
  VirtualTotal :: u64
  VirtualUsed :: u64
  VirtualFree :: u64

definition Info :: "host \<Rightarrow> HostInfo" where
  "Info h = info h"

definition zero_CPUTimes :: CPUTimes where
  "zero_CPUTimes = \<lparr>System = 0, User = 0, Idle = 0\<rparr>"

definition CPUTime :: "host \<Rightarrow> int \<times> int \<times> int \<times> error option \<Rightarrow> CPUTimes \<times> error option" where
  "CPUTime h q =
     (case q of (idle, kernel_t, user, err) \<Rightarrow>
        (case err of
           Some e \<Rightarrow> (zero_CPUTimes, Some e)
         | None \<Rightarrow> (\<lparr>System = kernel_t, User = user, Idle = idle\<rparr>, None)))"

definition Memory :: "host \<Rightarrow> MemoryStatusEx \<times> error option \<Rightarrow> HostMemoryInfo option \<times> error option" where
  "Memory h q =
     (case q of (mem, err) \<Rightarrow>
        (case err of
           Some e \<Rightarrow> (None, Some e)
         | None \<Rightarrow>
             (Some \<lparr>Total = TotalPhys mem,
                    Used = TotalPhys mem - AvailPhys mem,
                    Free = AvailPhys mem,
                    Available = AvailPhys mem,
                    VirtualTotal = TotalPageFile mem,
                    VirtualUsed = TotalPageFile mem - AvailPageFile mem,
                    VirtualFree = AvailPageFile mem\<rparr>, None)))"


text \<open>
  A sequence of calls on the handle. The methods have pointer receivers, so each
  gives back the handle it leaves behind together with what it returns; none of
  the three assigns to \<open>h.info\<close>.
\<close>

datatype handle_call =
    CallInfo
  | CallCPUTime "int \<times> int \<times> int \<times> error option"
  | CallMemory "MemoryStatusEx \<times> error option"

datatype handle_reply =
    InfoReply HostInfo
  | CPUTimeReply "CPUTimes \<times> error option"
  | MemoryReply "HostMemoryInfo option \<times> error option"

fun invoke :: "host \<Rightarrow> handle_call \<Rightarrow> host \<times> handle_reply" where
  "invoke h CallInfo = (h, InfoReply (Info h))"
| "invoke h (CallCPUTime q) = (h, CPUTimeReply (CPUTime h q))"
| "invoke h (CallMemory q) = (h, MemoryReply (Memory h q))"

fun invoke_all :: "host \<Rightarrow> handle_call list \<Rightarrow> host \<times> handle_reply list" where
  "invoke_all h [] = (h, [])"
| "invoke_all h (c # cs) =
     (case invoke h c of (h', x) \<Rightarrow>
        (case invoke_all h' cs of (h'', xs) \<Rightarrow> (h'', x # xs)))"

section \<open>Vocabulary of the properties\<close>

subsection \<open>Iterations of the loop\<close>

text \<open>
  \<open>iter_state call name s0 k\<close> is the OS state and the size with which
  \<open>getComputerNameEx\<close>, started in OS state \<open>s0\<close>, begins the iteration after \<open>k\<close>
  OS calls, when it gets that far.
\<close>

fun iter_state :: "'s os_call \<Rightarrow> u32 \<Rightarrow> 's \<Rightarrow> nat \<Rightarrow> ('s \<times> u32) option" where
  "iter_state call name s0 0 = Some (s0, 64)"
| "iter_state call name s0 (Suc k) =
     (case iter_state call name s0 k of
        None \<Rightarrow> None
      | Some (s, sz) \<Rightarrow>
          (let rs = call s name (replicate (unat sz) 0) sz in
           case after_call (replicate (unat sz) 0) (fst rs) of
             Done res \<Rightarrow> None
           | Continue sz' \<Rightarrow> Some (snd rs, sz')))"


subsection \<open>Simulated OS calls\<close>

text \<open>Reports success with 65 units used, whatever the buffer.\<close>

definition os_oversize :: "unit os_call" where
  "os_oversize s name buff sz = (\<lparr>reply_err = None, reply_size = 65, reply_data = []\<rparr>, s)"

text \<open>Always asks for 100 units; its state counts the calls.\<close>

definition os_need_100 :: "nat os_call" where
  "os_need_100 s name buff sz =
     (\<lparr>reply_err = Some ERROR_MORE_DATA, reply_size = 100, reply_data = []\<rparr>, Suc s)"

text \<open>The computer is called \<open>nm\<close>; the name is written with its terminating NUL.\<close>

definition os_name :: "u16 list \<Rightarrow> unit os_call" where
  "os_name nm s name buff sz =
     (if length buff < length nm + 1
      then (\<lparr>reply_err = Some ERROR_MORE_DATA, reply_size = of_nat (length nm + 1),
             reply_data = []\<rparr>, s)
      else (\<lparr>reply_err = None, reply_size = of_nat (length nm), reply_data = nm @ [0]\<rparr>, s))"

text \<open>Always fails with the error \<open>e\<close> and leaves the size alone.\<close>

definition os_fail :: "error \<Rightarrow> unit os_call" where
  "os_fail e s name buff sz = (\<lparr>reply_err = Some e, reply_size = sz, reply_data = []\<rparr>, s)"

subsection \<open>What newHost is expected to return\<close>

text \<open>
  The errors a list of steps leaves in the reader: those that are not nil and for
  which \<open>errors.Is(err, types.ErrNotImplemented)\<close> does not hold, in the order of the
  steps.
\<close>

fun failures :: "error option list \<Rightarrow> error list" where
  "failures [] = []"
| "failures (None # es) = failures es"
| "failures (Some e # es) =
     (if errors_Is e ErrNotImplemented then failures es else e # failures es)"

text \<open>The error the fqdn step makes of an error of \<open>getComputerNameEx\<close>.\<close>

definition fqdn_error :: "'s env \<Rightarrow> error \<Rightarrow> error" where
  "fqdn_error env e = ErrorString (''could not get windows FQDN: '' @ Error (q_errno_text env) e)"

text \<open>
  The nine steps in the order \<open>newHost\<close> invokes them, each with the error it has for
  \<open>addErr\<close>: nil (\<open>None\<close>) when its query succeeded. \<open>ferr\<close> is the error of
  \<open>getComputerNameEx\<close>. The time step has no error.
\<close>

definition step_errors :: "'s env \<Rightarrow> error option \<Rightarrow> error option list" where
  "step_errors env ferr =
     [snd (q_Architecture env), snd (q_BootTime env), snd (q_Hostname env),
      map_option (fqdn_error env) ferr,
      snd (snd (q_Network env)), snd (q_KernelVersion env), snd (q_OperatingSystem env),
      None, snd (q_MachineID env)]"

text \<open>The multi-error of a list of errors; nil when the list is empty.\<close>

definition combined :: "error list \<Rightarrow> multi_error option" where
  "combined F = (if F = [] then None else Some (MultiError F))"

text \<open>
  Every field holds the value its query returned when the query succeeded and its
  zero value when the query failed. \<open>name\<close> is the string of \<open>getComputerNameEx\<close>.
\<close>

definition expected_info :: "'s env \<Rightarrow> string \<Rightarrow> error option \<Rightarrow> HostInfo" where
  "expected_info env name ferr =
     \<lparr>Architecture = (if snd (q_Architecture env) = None then fst (q_Architecture env) else ''''),
      BootTime = (if snd (q_BootTime env) = None then fst (q_BootTime env) else 0),
      Hostname = (if snd (q_Hostname env) = None then fst (q_Hostname env) else ''''),
      FQDN = (if ferr = None then TrimSuffix name ''.'' else ''''),
      IPs = (if snd (snd (q_Network env)) = None then fst (q_Network env) else []),
      MACs = (if snd (snd (q_Network env)) = None then fst (snd (q_Network env)) else []),
      KernelVersion = (if snd (q_KernelVersion env) = None then fst (q_KernelVersion env) else ''''),
      OS = (if snd (q_OperatingSystem env) = None then fst (q_OperatingSystem env) else None),
      Timezone = fst (q_Zone env),
      TimezoneOffsetSec = snd (q_Zone env),
      UniqueID = (if snd (q_MachineID env) = None then fst (q_MachineID env) else '''')\<rparr>"

subsection \<open>Simulated hosts\<close>

text \<open>A message table for \<open>Errno\<close>.\<close>

definition winapi_text :: "nat \<Rightarrow> string" where
  "winapi_text n = (if n = 5 then ''Access is denied.'' else ''The operation failed.'')"

text \<open>A host on which every platform query succeeds; the OS call is a parameter.\<close>

definition env_ok :: "unit os_call \<Rightarrow> unit env" where
  "env_ok call =
     \<lparr>q_Architecture = (''x86_64'', None),
      q_BootTime = (1700000000, None),
      q_Hostname = (''host1'', None),
      q_GetComputerNameEx = call,
      q_os_state = (),
      q_Network = ([''10.0.0.7''], [''00:11:22:33:44:55''], None),
      q_KernelVersion = (''10.0.19041'', None),
      q_OperatingSystem = (Some \<lparr>Name = ''Windows 10'', Version = ''10.0'', Build = ''19041''\<rparr>, None),
      q_Zone = (''UTC'', 0),
      q_MachineID = (''id-1'', None),
      q_errno_text = winapi_text\<rparr>"

text \<open>The elements of the error \<open>newHost\<close> returns.\<close>

definition errors_of :: "multi_error option \<Rightarrow> error list" where
  "errors_of err = (case err of None \<Rightarrow> [] | Some (MultiError es) \<Rightarrow> es)"

text \<open>
  The seven steps that hand the error of their query to \<open>addErr\<close> as it is: the
  error, and whether the fields of the step hold their zero values in \<open>i\<close>.
\<close>

definition direct_steps :: "'s env \<Rightarrow> HostInfo \<Rightarrow> (error option \<times> bool) list" where
  "direct_steps env i =
     [(snd (q_Architecture env), Architecture i = ''''),
      (snd (q_BootTime env), BootTime i = 0),
      (snd (q_Hostname env), Hostname i = ''''),
      (snd (snd (q_Network env)), IPs i = [] \<and> MACs i = []),
      (snd (q_KernelVersion env), KernelVersion i = ''''),
      (snd (q_OperatingSystem env), OS i = None),
      (snd (q_MachineID env), UniqueID i = '''')]"

text \<open>
  The architecture is not implemented, the boot time fails, and the OS call behind
  the FQDN fails with access denied.
\<close>

definition env_partial :: "unit env" where
  "env_partial =
     (env_ok (os_fail (Errno 5)))
       \<lparr>q_Architecture := (''amd64'', Some ErrNotImplemented),
        q_BootTime := (42, Some (ErrorString ''boot time unavailable''))\<rparr>"

text \<open>
  The architecture and the machine id are not implemented (the second error wraps
  the sentinel); the computer is called \<open>h1.a.\<close> with a trailing dot.
\<close>

definition env_unimplemented :: "unit env" where
  "env_unimplemented =
     (env_ok (os_name [0x68, 0x31, 0x2E, 0x61, 0x2E]))
       \<lparr>q_Architecture := (''amd64'', Some ErrNotImplemented),
        q_MachineID := (''id-1'', Some (WrapError ''machine id: '' ErrNotImplemented))\<rparr>"

section \<open>The loop of getComputerNameEx\<close>

lemma length_os_write [simp]: "length (os_write buff data) = length buff"
  by (simp add: os_write_def)

lemma take_os_write:
  assumes "take k data = nm" and "length nm = k" and "k \<le> length buff"
  shows "take k (os_write buff data) = nm"
proof -
  from assms(1,2) have "length (take k data) = k"
    by simp
  then have "k \<le> length data"
    by (simp add: min_def split: if_splits)
  with assms show ?thesis
    by (simp add: os_write_def)
qed

lemma after_call_Continue:
  "after_call buff0 r = Continue sz' \<Longrightarrow> of_nat (length buff0) < sz'"
  by (auto simp: after_call_def Let_def split: option.splits if_splits)

lemma loop_Done:
  assumes "sz \<noteq> 0"
    and "after_call (replicate (unat sz) 0) (fst (call s name (replicate (unat sz) 0) sz)) = Done res"
  shows "getComputerNameEx_loop call name s sz n =
           (res, snd (call s name (replicate (unat sz) 0) sz), Suc n)"
  using assms by (simp add: getComputerNameEx_loop.simps [of call name s sz n] Let_def)

lemma loop_Continue:
  assumes "sz \<noteq> 0"
    and "after_call (replicate (unat sz) 0) (fst (call s name (replicate (unat sz) 0) sz)) = Continue sz'"
  shows "getComputerNameEx_loop call name s sz n =
           getComputerNameEx_loop call name (snd (call s name (replicate (unat sz) 0) sz)) sz' (Suc n)"
  using assms by (simp add: getComputerNameEx_loop.simps [of call name s sz n] Let_def)

text \<open>Every iteration the loop reaches is one more unfolding of it.\<close>

lemma iter_state_loop:
  "iter_state call name s0 k = Some (s, sz) \<Longrightarrow>
     64 \<le> sz \<and> getComputerNameEx call name s0 = getComputerNameEx_loop call name s sz k"
proof (induction k arbitrary: s sz)
  case 0
  then show ?case by (simp add: getComputerNameEx_def)
next
  case (Suc k)
  from Suc.prems obtain s1 sz1 where
    st: "iter_state call name s0 k = Some (s1, sz1)"
    and c: "after_call (replicate (unat sz1) 0) (fst (call s1 name (replicate (unat sz1) 0) sz1)) = Continue sz"
    and s: "s = snd (call s1 name (replicate (unat sz1) 0) sz1)"
    by (auto simp: Let_def split: option.splits iteration.splits)
  from Suc.IH [OF st] have le: "64 \<le> sz1"
    and eq: "getComputerNameEx call name s0 = getComputerNameEx_loop call name s1 sz1 k"
    by simp_all
  from le have nz: "sz1 \<noteq> 0" by auto
  from after_call_Continue [OF c] have "sz1 < sz" by simp
  with le have "64 \<le> sz" by simp
  moreover have "getComputerNameEx call name s0 = getComputerNameEx_loop call name s sz (Suc k)"
    using eq loop_Continue [where call = call and s = s1 and name = name, OF nz c] s by simp
  ultimately show ?case by simp
qed

text \<open>
  The size grows at every retry and is a 32-bit number: the loop makes at least one
  OS call and at most as many as there are sizes left.
\<close>

lemma loop_calls:
  "sz \<noteq> 0 \<Longrightarrow>
     n < snd (snd (getComputerNameEx_loop call name s sz n)) \<and>
     snd (snd (getComputerNameEx_loop call name s sz n)) + unat sz \<le> n + 2 ^ 32"
proof (induction call name s sz n rule: getComputerNameEx_loop.induct)
  case (1 call name s sz n)
  let ?buff = "replicate (unat sz) (0 :: u16)"
  let ?rs = "call s name ?buff sz"
  have lt: "unat sz < 2 ^ 32"
    using unsigned_less [of sz] by simp
  show ?case
  proof (cases "after_call ?buff (fst ?rs)")
    case (Done res)
    from loop_Done [where call = call and s = s and name = name, OF "1.prems" Done] lt
    show ?thesis by simp
  next
    case (Continue sz')
    from after_call_Continue [OF Continue] have "sz < sz'" by simp
    then have lt': "unat sz < unat sz'" by (simp add: word_less_nat_alt)
    then have nz': "sz' \<noteq> 0" by auto
    from "1.IH" [OF "1.prems" refl refl Continue nz']
      loop_Continue [where call = call and s = s and name = name, OF "1.prems" Continue] lt'
    show ?thesis by simp
  qed
qed

lemma loop_result:
  "sz \<noteq> 0 \<Longrightarrow>
     (case fst (getComputerNameEx_loop call name s sz n) of
        Return (v, err) \<Rightarrow> err = None \<or> v = ''''
      | Panic p \<Rightarrow> p = ''slice bounds out of range'')"
proof (induction call name s sz n rule: getComputerNameEx_loop.induct)
  case (1 call name s sz n)
  let ?buff = "replicate (unat sz) (0 :: u16)"
  let ?rs = "call s name ?buff sz"
  show ?case
  proof (cases "after_call ?buff (fst ?rs)")
    case (Done res)
    then have "case res of Return (v, err) \<Rightarrow> err = None \<or> v = ''''
                 | Panic p \<Rightarrow> p = ''slice bounds out of range''"
      by (auto simp: after_call_def Let_def split: option.splits if_splits)
    with loop_Done [where call = call and s = s and name = name, OF "1.prems" Done]
    show ?thesis by simp
  next
    case (Continue sz')
    from after_call_Continue [OF Continue] have "sz < sz'" by simp
    then have nz': "sz' \<noteq> 0" by (auto simp: word_less_nat_alt)
    from "1.IH" [OF "1.prems" refl refl Continue nz']
      loop_Continue [where call = call and s = s and name = name, OF "1.prems" Continue]
    show ?thesis by simp
  qed
qed




text \<open>
  C5, as amended. Whatever the OS call does, \<open>getComputerNameEx\<close> ends after at
  least one and at most \<open>2^32 - 64\<close> OS calls, one call per iteration. It ends in one
  of three ways: it returns a string and a nil error, it returns the empty string
  and an error, or it panics in \<open>buff[:size]\<close>. It never loops forever.
\<close>

theorem getComputerNameEx_terminates:
  "(case getComputerNameEx call name s of
      (res, s', n) \<Rightarrow>
        1 \<le> n \<and> n \<le> 2 ^ 32 - 64 \<and>
        (case res of
           Return (v, err) \<Rightarrow> err = None \<or> v = ''''
         | Panic p \<Rightarrow> p = ''slice bounds out of range''))"
proof -
  have nz: "(64 :: u32) \<noteq> 0" by simp
  have "0 < snd (snd (getComputerNameEx_loop call name s 64 0))"
    and "snd (snd (getComputerNameEx_loop call name s 64 0)) + unat (64 :: u32) \<le> 0 + 2 ^ 32"
    using loop_calls [where call = call and name = name and s = s and n = 0, OF nz] by simp_all
  moreover note loop_result [where call = call and name = name and s = s and n = 0, OF nz]
  ultimately show ?thesis
    by (simp add: getComputerNameEx_def split_beta)
qed

text \<open>
  C5, as stated, fails: when the OS call reports success and a size of 65 for the
  buffer of 64 units, \<open>buff[:size]\<close> is out of range and \<open>getComputerNameEx\<close> returns
  neither a value nor an error. It panics after its first OS call.
\<close>

theorem getComputerNameEx_panics:
  "getComputerNameEx os_oversize ComputerNamePhysicalDnsFullyQualified () =
     (Panic ''slice bounds out of range'', (), 1)"
  by (simp add: getComputerNameEx_def getComputerNameEx_loop.simps [of _ _ _ 64 0]
      os_oversize_def after_call_def Let_def)

text \<open>
  C3. If the loop reaches an iteration (after \<open>k\<close> OS calls, with OS state \<open>s\<close> and
  size \<open>sz\<close>) in which the OS call fails with \<open>ERROR_MORE_DATA\<close> and reports a size
  that is not larger than the length of the buffer it was given, then
  \<open>getComputerNameEx\<close> returns the empty string and the internal-consistency error;
  that call was its last: the OS state it leaves is the state after that call, and
  it has made \<open>k + 1\<close> calls.
\<close>

theorem getComputerNameEx_protocol_guard:
  assumes "iter_state call name s0 k = Some (s, sz)"
    and "call s name (replicate (unat sz) 0) sz = (r, s')"
    and "reply_err r = Some e"
    and "errors_Is e ERROR_MORE_DATA"
    and "unat (reply_size r) \<le> length (replicate (unat sz) (0 :: u16))"
  shows "getComputerNameEx call name s0 =
           (Return ('''', Some (ErrorString
              ''windows.GetComputerNameEx returned ERROR_MORE_DATA, but data size should fit into buffer'')),
            s', Suc k)"
proof -
  from iter_state_loop [OF assms(1)] have le: "64 \<le> sz"
    and eq: "getComputerNameEx call name s0 = getComputerNameEx_loop call name s sz k"
    by simp_all
  from le have nz: "sz \<noteq> 0" by auto
  from assms(5) have "reply_size r \<le> sz"
    by (simp add: word_le_nat_alt)
  with assms(2-4) have
    "after_call (replicate (unat sz) 0) (fst (call s name (replicate (unat sz) 0) sz)) =
       Done (Return ('''', Some (ErrorString
         ''windows.GetComputerNameEx returned ERROR_MORE_DATA, but data size should fit into buffer'')))"
    by (simp add: after_call_def Let_def)
  from loop_Done [where call = call and s = s and name = name, OF nz this] eq assms(2)
  show ?thesis by simp
qed

text \<open>
  The guard on the second iteration: the OS asks for 100 units, is given 100, and
  asks for 100 again.
\<close>

theorem getComputerNameEx_protocol_guard_witness:
  "iter_state os_need_100 ComputerNamePhysicalDnsFullyQualified 0 1 = Some (1, 100) \<and>
   os_need_100 1 ComputerNamePhysicalDnsFullyQualified (replicate (unat (100 :: u32)) 0) 100 =
     (\<lparr>reply_err = Some ERROR_MORE_DATA, reply_size = 100, reply_data = []\<rparr>, 2) \<and>
   errors_Is ERROR_MORE_DATA ERROR_MORE_DATA \<and>
   getComputerNameEx os_need_100 ComputerNamePhysicalDnsFullyQualified 0 =
     (Return ('''', Some (ErrorString
        ''windows.GetComputerNameEx returned ERROR_MORE_DATA, but data size should fit into buffer'')),
      2, 2)"
proof -
  have st: "iter_state os_need_100 ComputerNamePhysicalDnsFullyQualified 0 (Suc 0) = Some (Suc 0, 100)"
    by (simp add: os_need_100_def after_call_def Let_def ERROR_MORE_DATA_def)
  have c: "os_need_100 (Suc 0) ComputerNamePhysicalDnsFullyQualified
             (replicate (unat (100 :: u32)) 0) 100 =
           (\<lparr>reply_err = Some ERROR_MORE_DATA, reply_size = 100, reply_data = []\<rparr>, 2)"
    by (simp add: os_need_100_def)
  have i: "errors_Is ERROR_MORE_DATA ERROR_MORE_DATA"
    by (simp add: ERROR_MORE_DATA_def)
  have le: "unat (reply_size \<lparr>reply_err = Some ERROR_MORE_DATA, reply_size = 100, reply_data = []\<rparr>)
      \<le> length (replicate (unat (100 :: u32)) (0 :: u16))"
    by simp
  from getComputerNameEx_protocol_guard [OF st c _ i le] st c i
  show ?thesis by simp
qed



section \<open>The aggregator\<close>

lemma failures_append: "failures (xs @ ys) = failures xs @ failures ys"
  by (induction xs rule: failures.induct) simp_all

lemma set_failures: "x \<in> set (failures es) \<longleftrightarrow> Some x \<in> set es \<and> \<not> errors_Is x ErrNotImplemented"
  by (induction es rule: failures.induct) auto

lemma failures_Nil_iff:
  "failures es = [] \<longleftrightarrow> (\<forall>x. Some x \<in> set es \<longrightarrow> errors_Is x ErrNotImplemented)"
  by (induction es rule: failures.induct) auto

lemma errors_of_combined [simp]: "errors_of (combined F) = F"
  by (simp add: errors_of_def combined_def)

lemma addErr_eq: "addErr r err = (err \<noteq> None, r\<lparr>errs := errs r @ failures [err]\<rparr>)"
  by (cases err) (simp_all add: addErr_def)

lemma architecture_eq:
  "architecture env r h =
     (r\<lparr>errs := errs r @ failures [snd (q_Architecture env)]\<rparr>,
      info_update (Architecture_update (\<lambda>old. if snd (q_Architecture env) = None then fst (q_Architecture env) else old)) h)"
  by (cases "snd (q_Architecture env)") (simp_all add: architecture_def addErr_eq split_beta)

lemma bootTime_eq:
  "bootTime env r h =
     (r\<lparr>errs := errs r @ failures [snd (q_BootTime env)]\<rparr>,
      info_update (BootTime_update (\<lambda>old. if snd (q_BootTime env) = None then fst (q_BootTime env) else old)) h)"
  by (cases "snd (q_BootTime env)") (simp_all add: bootTime_def addErr_eq split_beta)

lemma hostname_eq:
  "hostname env r h =
     (r\<lparr>errs := errs r @ failures [snd (q_Hostname env)]\<rparr>,
      info_update (Hostname_update (\<lambda>old. if snd (q_Hostname env) = None then fst (q_Hostname env) else old)) h)"
  by (cases "snd (q_Hostname env)") (simp_all add: hostname_def addErr_eq split_beta)

lemma kernelVersion_eq:
  "kernelVersion env r h =
     (r\<lparr>errs := errs r @ failures [snd (q_KernelVersion env)]\<rparr>,
      info_update (KernelVersion_update (\<lambda>old. if snd (q_KernelVersion env) = None then fst (q_KernelVersion env) else old)) h)"
  by (cases "snd (q_KernelVersion env)") (simp_all add: kernelVersion_def addErr_eq split_beta)

lemma os_eq:
  "os env r h =
     (r\<lparr>errs := errs r @ failures [snd (q_OperatingSystem env)]\<rparr>,
      info_update (OS_update (\<lambda>old. if snd (q_OperatingSystem env) = None then fst (q_OperatingSystem env) else old)) h)"
  by (cases "snd (q_OperatingSystem env)") (simp_all add: os_def addErr_eq split_beta)

lemma uniqueID_eq:
  "uniqueID env r h =
     (r\<lparr>errs := errs r @ failures [snd (q_MachineID env)]\<rparr>,
      info_update (UniqueID_update (\<lambda>old. if snd (q_MachineID env) = None then fst (q_MachineID env) else old)) h)"
  by (cases "snd (q_MachineID env)") (simp_all add: uniqueID_def addErr_eq split_beta)

lemma network_eq:
  "network env r h =
     (r\<lparr>errs := errs r @ failures [snd (snd (q_Network env))]\<rparr>,
      info_update
        (MACs_update (\<lambda>old. if snd (snd (q_Network env)) = None
                                then fst (snd (q_Network env)) else old) \<circ>
         IPs_update (\<lambda>old. if snd (snd (q_Network env)) = None
                               then fst (q_Network env) else old)) h)"
  by (cases "snd (snd (q_Network env))") (simp_all add: network_def addErr_eq split_beta)

lemma fqdn_eq:
  assumes "fst (getComputerNameEx (q_GetComputerNameEx env)
             ComputerNamePhysicalDnsFullyQualified (q_os_state env)) = Return (name, ferr)"
  shows "fqdn env r h =
     Return (r\<lparr>errs := errs r @ failures [map_option (fqdn_error env) ferr]\<rparr>,
             info_update (FQDN_update (\<lambda>old. if ferr = None then TrimSuffix name ''.'' else old)) h)"
  using assms by (cases ferr) (simp_all add: fqdn_def addErr_eq fqdn_error_def)

lemma time_eq:
  "time env r h =
     (r, info_update (TimezoneOffsetSec_update (\<lambda>old. snd (q_Zone env)) \<circ>
                      Timezone_update (\<lambda>old. fst (q_Zone env))) h)"
  by (simp add: time_def)

lemma fqdn_Panic:
  assumes "fst (getComputerNameEx (q_GetComputerNameEx env)
             ComputerNamePhysicalDnsFullyQualified (q_os_state env)) = Panic p"
  shows "newHost env = Panic p"
  using assms by (simp add: newHost_def fqdn_def split_beta Let_def)

lemma failures_Cons2: "failures (x # y # ys) = failures [x] @ failures (y # ys)"
  using failures_append [of "[x]" "y # ys"] by simp

lemma failures_None: "failures [None] = []"
  by simp

text \<open>
  \<open>newHost\<close> run symbolically. When \<open>getComputerNameEx\<close> returns, \<open>newHost\<close> returns
  the expected record and the expected error.
\<close>

lemma newHost_run:
  assumes "fst (getComputerNameEx (q_GetComputerNameEx env)
             ComputerNamePhysicalDnsFullyQualified (q_os_state env)) = Return (name, ferr)"
  shows "newHost env =
     Return (\<lparr>info = expected_info env name ferr\<rparr>, combined (failures (step_errors env ferr)))"
proof -
  have e: "failures (step_errors env ferr) =
      failures [snd (q_Architecture env)] @ failures [snd (q_BootTime env)] @
      failures [snd (q_Hostname env)] @ failures [map_option (fqdn_error env) ferr] @
      failures [snd (snd (q_Network env))] @ failures [snd (q_KernelVersion env)] @
      failures [snd (q_OperatingSystem env)] @ failures [snd (q_MachineID env)]"
    by (simp only: step_errors_def failures_Cons2 failures_None append_Nil)
  show ?thesis
    unfolding e
    by (simp add: newHost_def architecture_eq bootTime_eq hostname_eq fqdn_eq [OF assms]
      network_eq kernelVersion_eq os_eq time_eq uniqueID_eq Err_def combined_def
      expected_info_def zero_HostInfo_def Let_def del: failures.simps)
qed

lemma fqdn_error_Zone: "fqdn_error (env\<lparr>q_Zone := z\<rparr>) = fqdn_error env"
  by (rule ext) (simp add: fqdn_error_def)

lemma step_errors_Zone [simp]:
  "step_errors (env\<lparr>q_Zone := z\<rparr>) ferr = step_errors env ferr"
  by (simp add: step_errors_def fqdn_error_Zone)

section \<open>The simulated OS calls\<close>

lemma getComputerNameEx_os_fail:
  assumes "\<not> errors_Is e ERROR_MORE_DATA"
  shows "getComputerNameEx (os_fail e) name s =
     (Return ('''', Some (WrapError
        ''could not get windows FQDN: could not get windows.ComputerNamePhysicalDnsFullyQualified: ''
        e)), s, 1)"
  using assms
  by (simp add: getComputerNameEx_def getComputerNameEx_loop.simps [of _ _ _ 64 0]
      os_fail_def after_call_def Let_def)

lemma getComputerNameEx_os_oversize:
  "getComputerNameEx os_oversize name s = (Panic ''slice bounds out of range'', s, 1)"
  by (simp add: getComputerNameEx_def getComputerNameEx_loop.simps [of _ _ _ 64 0]
      os_oversize_def after_call_def Let_def)

text \<open>A high surrogate on its own is written as the three bytes ED A0 80.\<close>

lemma UTF16ToString_lone_surrogate:
  "map of_char (UTF16ToString [0xD800]) = [0xED, 0xA0, 0x80 :: nat]"
  by (simp add: UTF16ToString_def utf8_EncodeRune_def)

lemma getComputerNameEx_os_name:
  assumes "length nm < 64"
  shows "getComputerNameEx (os_name nm) name s = (Return (UTF16ToString nm, None), s, 1)"
proof -
  have "take (length nm) (os_write (replicate 64 0) (nm @ [0])) = nm"
    using assms by (intro take_os_write) simp_all
  moreover from assms have "unat (of_nat (length nm) :: u32) = length nm"
    by (subst unat_of_nat) simp
  ultimately show ?thesis
    using assms
    by (simp add: getComputerNameEx_def getComputerNameEx_loop.simps [of _ _ _ 64 0]
        os_name_def after_call_def Let_def)
qed

lemma UTF16ToString_h1: "UTF16ToString [0x68, 0x31, 0x2E, 0x61, 0x2E] = ''h1.a.''"
  by code_simp

lemma UTF16ToString_hostdd: "UTF16ToString [0x68, 0x6F, 0x73, 0x74, 0x2E, 0x2E] = ''host..''"
  by code_simp

section \<open>Suffixes\<close>

lemma HasSuffix_iff: "HasSuffix s suffix \<longleftrightarrow> (\<exists>t. s = t @ suffix)"
proof
  assume "HasSuffix s suffix"
  then have "s = take (length s - length suffix) s @ suffix"
    by (metis HasSuffix_def append_take_drop_id)
  then show "\<exists>t. s = t @ suffix" ..
next
  assume "\<exists>t. s = t @ suffix"
  then show "HasSuffix s suffix"
    by (auto simp: HasSuffix_def)
qed

lemma TrimSuffix_append: "TrimSuffix (t @ suffix) suffix = t"
  by (simp add: TrimSuffix_def HasSuffix_def)

lemma TrimSuffix_dot:
  assumes "\<not> HasSuffix s ''..''"
  shows "\<not> HasSuffix (TrimSuffix s ''.'') ''.''"
proof (cases "HasSuffix s ''.''")
  case True
  then obtain t where s: "s = t @ ''.''"
    unfolding HasSuffix_iff ..
  show ?thesis
  proof
    assume "HasSuffix (TrimSuffix s ''.'') ''.''"
    then have "HasSuffix t ''.''"
      by (simp only: s TrimSuffix_append)
    then obtain u where "t = u @ ''.''"
      unfolding HasSuffix_iff ..
    with s have "s = u @ ''..''" by simp
    then have "HasSuffix s ''..''"
      unfolding HasSuffix_iff ..
    with assms show False ..
  qed
next
  case False
  then show ?thesis by (simp add: TrimSuffix_def)
qed

section \<open>Properties of the host handle\<close>

lemma unat_sub_mod64: "unat (a - b :: u64) = (2 ^ 64 + unat a - unat b) mod 2 ^ 64"
proof -
  have a: "unat a < 2 ^ 64" and b: "unat b < 2 ^ 64"
    using unsigned_less [of a] unsigned_less [of b] by simp_all
  show ?thesis
  proof (cases "unat b \<le> unat a")
    case True
    then have "2 ^ 64 + unat a - unat b = (unat a - unat b) + 1 * 2 ^ 64"
      by simp
    then have "(2 ^ 64 + unat a - unat b) mod 2 ^ 64 = (unat a - unat b) mod 2 ^ 64"
      by (simp only: mod_mult_self1)
    with True a show ?thesis
      by (simp add: unat_sub_if')
  next
    case False
    with b have "2 ^ 64 + unat a - unat b < 2 ^ 64"
      by simp
    then have "(2 ^ 64 + unat a - unat b) mod 2 ^ 64 = 2 ^ 64 + unat a - unat b"
      by (rule mod_less)
    moreover from False have "unat (a - b) = unat a + 2 ^ 64 - unat b"
      by (simp add: unat_sub_if')
    ultimately show ?thesis
      by simp
  qed
qed

text \<open>
  C6. Whenever \<open>Memory\<close> succeeds, the record it returns has
  \<open>Used = Total - Free\<close> and \<open>VirtualUsed = VirtualTotal - VirtualFree\<close>, the
  subtraction being that of unsigned 64-bit integers (modulo \<open>2^64\<close>), for whatever
  values the OS query reports.
\<close>

theorem Memory_used:
  assumes "Memory h q = (Some m, err)"
  shows "Used m = Total m - Free m \<and>
         VirtualUsed m = VirtualTotal m - VirtualFree m \<and>
         unat (Used m) = (2 ^ 64 + unat (Total m) - unat (Free m)) mod 2 ^ 64 \<and>
         unat (VirtualUsed m) =
           (2 ^ 64 + unat (VirtualTotal m) - unat (VirtualFree m)) mod 2 ^ 64 \<and>
         Total m = TotalPhys (fst q) \<and> Free m = AvailPhys (fst q) \<and>
         VirtualTotal m = TotalPageFile (fst q) \<and> VirtualFree m = AvailPageFile (fst q)"
proof -
  from assms have m: "m = \<lparr>Total = TotalPhys (fst q),
                    Used = TotalPhys (fst q) - AvailPhys (fst q),
                    Free = AvailPhys (fst q),
                    Available = AvailPhys (fst q),
                    VirtualTotal = TotalPageFile (fst q),
                    VirtualUsed = TotalPageFile (fst q) - AvailPageFile (fst q),
                    VirtualFree = AvailPageFile (fst q)\<rparr>"
    by (auto simp: Memory_def split: prod.splits option.splits)
  show ?thesis
    unfolding m by (simp add: unat_sub_mod64)
qed

text \<open>
  16 GiB of which 4 GiB are available give 12 GiB used; a page file of 1 byte of
  which 2 are available wraps around.
\<close>

theorem Memory_used_witness:
  "Memory \<lparr>info = zero_HostInfo\<rparr>
     (\<lparr>TotalPhys = 17179869184, AvailPhys = 4294967296,
       TotalPageFile = 1, AvailPageFile = 2\<rparr>, None) =
     (Some \<lparr>Total = 17179869184, Used = 12884901888, Free = 4294967296,
            Available = 4294967296, VirtualTotal = 1,
            VirtualUsed = 18446744073709551615, VirtualFree = 2\<rparr>, None) \<and>
   (12884901888 :: u64) = 17179869184 - 4294967296 \<and>
   (18446744073709551615 :: u64) = 1 - 2"
proof -
  have run: "Memory \<lparr>info = zero_HostInfo\<rparr>
     (\<lparr>TotalPhys = 17179869184, AvailPhys = 4294967296,
       TotalPageFile = 1, AvailPageFile = 2\<rparr>, None) =
     (Some \<lparr>Total = 17179869184, Used = 12884901888, Free = 4294967296,
            Available = 4294967296, VirtualTotal = 1,
            VirtualUsed = 18446744073709551615, VirtualFree = 2\<rparr>, None)"
    by (simp add: Memory_def)
  from Memory_used [OF run] run show ?thesis
    by simp
qed

text \<open>
  C10. Whenever \<open>Memory\<close> succeeds, \<open>Available\<close> and \<open>Free\<close> of the record it
  returns are equal: both are the available physical memory the OS query reports.
\<close>

theorem Memory_available:
  assumes "Memory h q = (Some m, err)"
  shows "Available m = Free m \<and> Available m = AvailPhys (fst q) \<and> err = None"
  using assms by (auto simp: Memory_def split: prod.splits option.splits)

text \<open>16 GiB of which 4 GiB are available: \<open>Available\<close> and \<open>Free\<close> are 4 GiB.\<close>

theorem Memory_available_witness:
  "Memory \<lparr>info = zero_HostInfo\<rparr>
     (\<lparr>TotalPhys = 17179869184, AvailPhys = 4294967296,
       TotalPageFile = 34359738368, AvailPageFile = 8589934592\<rparr>, None) =
     (Some \<lparr>Total = 17179869184, Used = 12884901888, Free = 4294967296,
            Available = 4294967296, VirtualTotal = 34359738368,
            VirtualUsed = 25769803776, VirtualFree = 8589934592\<rparr>, None) \<and>
   Available \<lparr>Total = 17179869184, Used = 12884901888, Free = 4294967296,
            Available = 4294967296, VirtualTotal = 34359738368,
            VirtualUsed = 25769803776, VirtualFree = 8589934592\<rparr> = (4294967296 :: u64)"
proof -
  have run: "Memory \<lparr>info = zero_HostInfo\<rparr>
     (\<lparr>TotalPhys = 17179869184, AvailPhys = 4294967296,
       TotalPageFile = 34359738368, AvailPageFile = 8589934592\<rparr>, None) =
     (Some \<lparr>Total = 17179869184, Used = 12884901888, Free = 4294967296,
            Available = 4294967296, VirtualTotal = 34359738368,
            VirtualUsed = 25769803776, VirtualFree = 8589934592\<rparr>, None)"
    by (simp add: Memory_def)
  from Memory_available [OF run] run show ?thesis
    by simp
qed

lemma invoke_all_handle: "fst (invoke_all h cs) = h"
proof (induction cs arbitrary: h)
  case Nil
  show ?case by simp
next
  case (Cons c cs)
  have "fst (invoke h c) = h"
    by (cases c) simp_all
  with Cons.IH [of h] show ?case
    by (simp add: split_beta)
qed

lemma invoke_all_append:
  "invoke_all h (cs @ ds) =
     (fst (invoke_all (fst (invoke_all h cs)) ds),
      snd (invoke_all h cs) @ snd (invoke_all (fst (invoke_all h cs)) ds))"
proof (induction cs arbitrary: h)
  case Nil
  show ?case by simp
next
  case (Cons c cs)
  show ?case
    by (simp add: split_beta Cons.IH)
qed

text \<open>
  C8. \<open>Info\<close> has no error result. Whatever calls (\<open>Info\<close>, \<open>CPUTime\<close>, \<open>Memory\<close>,
  with whatever answers of the OS) are made on a handle \<open>h\<close>, the handle they leave
  is \<open>h\<close>, and an \<open>Info\<close> call made after them returns the \<open>HostInfo\<close> that \<open>h\<close>
  has held since \<open>newHost\<close> built it.
\<close>

theorem Info_frame:
  "fst (invoke_all h cs) = h \<and>
   Info (fst (invoke_all h cs)) = info h \<and>
   snd (invoke_all h (cs @ [CallInfo])) = snd (invoke_all h cs) @ [InfoReply (info h)]"
  by (simp add: invoke_all_append invoke_all_handle Info_def)

section \<open>Properties of newHost\<close>

text \<open>
  C1, as stated, fails, at three inputs. On \<open>env_partial\<close> the OS call behind the
  FQDN fails with access denied: the error of \<open>getComputerNameEx\<close> is not
  \<open>ErrNotImplemented\<close>, yet the element \<open>newHost\<close> lists for it is not that error.
  It is a new error that carries the formatted message. On \<open>env_unimplemented\<close>
  \<open>getComputerNameEx\<close> succeeds with \<open>h1.a.\<close>, and the FQDN field holds \<open>h1.a\<close>,
  not the returned value. When the OS call reports success with a size beyond the
  buffer, \<open>getComputerNameEx\<close> panics and \<open>newHost\<close> returns no record.
\<close>

theorem newHost_not_the_query_outcomes:
  "fst (getComputerNameEx (q_GetComputerNameEx env_partial)
     ComputerNamePhysicalDnsFullyQualified (q_os_state env_partial)) =
     Return ('''', Some (WrapError
       ''could not get windows FQDN: could not get windows.ComputerNamePhysicalDnsFullyQualified: ''
       (Errno 5))) \<and>
   \<not> errors_Is (WrapError
       ''could not get windows FQDN: could not get windows.ComputerNamePhysicalDnsFullyQualified: ''
       (Errno 5)) ErrNotImplemented \<and>
   map_go snd (newHost env_partial) =
     Return (Some (MultiError
       [ErrorString ''boot time unavailable'',
        ErrorString ''could not get windows FQDN: could not get windows FQDN: could not get windows.ComputerNamePhysicalDnsFullyQualified: Access is denied.''])) \<and>
   [ErrorString ''boot time unavailable'',
    ErrorString ''could not get windows FQDN: could not get windows FQDN: could not get windows.ComputerNamePhysicalDnsFullyQualified: Access is denied.''] \<noteq>
   [ErrorString ''boot time unavailable'',
    WrapError
      ''could not get windows FQDN: could not get windows.ComputerNamePhysicalDnsFullyQualified: ''
      (Errno 5)] \<and>
   fst (getComputerNameEx (q_GetComputerNameEx env_unimplemented)
     ComputerNamePhysicalDnsFullyQualified (q_os_state env_unimplemented)) =
     Return (''h1.a.'', None) \<and>
   map_go (FQDN \<circ> info \<circ> fst) (newHost env_unimplemented) = Return ''h1.a'' \<and>
   newHost (env_ok os_oversize) = Panic ''slice bounds out of range''"
proof -
  have q1: "fst (getComputerNameEx (q_GetComputerNameEx env_partial)
     ComputerNamePhysicalDnsFullyQualified (q_os_state env_partial)) =
     Return ('''', Some (WrapError
       ''could not get windows FQDN: could not get windows.ComputerNamePhysicalDnsFullyQualified: ''
       (Errno 5)))"
    by (simp add: env_partial_def env_ok_def getComputerNameEx_os_fail ERROR_MORE_DATA_def)
  have r1: "map_go snd (newHost env_partial) =
     Return (Some (MultiError
       [ErrorString ''boot time unavailable'',
        ErrorString ''could not get windows FQDN: could not get windows FQDN: could not get windows.ComputerNamePhysicalDnsFullyQualified: Access is denied.'']))"
    unfolding newHost_run [OF q1]
    by (simp add: step_errors_def combined_def fqdn_error_def
        env_partial_def env_ok_def winapi_text_def)
  have q2: "fst (getComputerNameEx (q_GetComputerNameEx env_unimplemented)
     ComputerNamePhysicalDnsFullyQualified (q_os_state env_unimplemented)) =
     Return (''h1.a.'', None)"
    by (simp add: env_unimplemented_def env_ok_def getComputerNameEx_os_name UTF16ToString_h1)
  have r2: "map_go (FQDN \<circ> info \<circ> fst) (newHost env_unimplemented) = Return ''h1.a''"
    unfolding newHost_run [OF q2]
    by (simp add: expected_info_def TrimSuffix_def HasSuffix_def)
  have q3: "fst (getComputerNameEx (q_GetComputerNameEx (env_ok os_oversize))
     ComputerNamePhysicalDnsFullyQualified (q_os_state (env_ok os_oversize))) =
     Panic ''slice bounds out of range''"
    by (simp add: env_ok_def getComputerNameEx_os_oversize)
  from q1 r1 q2 r2 fqdn_Panic [OF q3] show ?thesis
    by simp
qed

text \<open>
  C1, as amended. When \<open>getComputerNameEx\<close> panics, \<open>newHost\<close> panics and returns
  nothing. Otherwise, whatever the nine queries return, \<open>newHost\<close> returns the host
  record and an error. Every field whose query succeeded holds the returned value,
  except that FQDN holds the returned string with one trailing dot removed; every
  field whose query failed holds its zero value; the zone fields are always set.
  The error is the multi-error of the errors of the nine steps that are neither nil
  nor \<open>ErrNotImplemented\<close>, in the order of the steps, and nil exactly when there is
  no such error. The error of each of the seven direct steps is the error of its
  query. The error of the fqdn step is not the error of \<open>getComputerNameEx\<close> but the
  message-only error the step formats from it, which is never \<open>ErrNotImplemented\<close>
  and so is listed whenever \<open>getComputerNameEx\<close> fails.
\<close>

theorem newHost_partial_tolerance:
  "case fst (getComputerNameEx (q_GetComputerNameEx env)
          ComputerNamePhysicalDnsFullyQualified (q_os_state env)) of
     Panic p \<Rightarrow> newHost env = Panic p
   | Return (name, ferr) \<Rightarrow>
       newHost env =
         Return (\<lparr>info = expected_info env name ferr\<rparr>,
                 combined (failures (step_errors env ferr))) \<and>
       length (step_errors env ferr) = 9 \<and>
       (combined (failures (step_errors env ferr)) = None \<longleftrightarrow>
          (\<forall>x. Some x \<in> set (step_errors env ferr) \<longrightarrow> errors_Is x ErrNotImplemented)) \<and>
       (\<forall>e. ferr = Some e \<longrightarrow>
          step_errors env ferr ! 3 = Some (fqdn_error env e) \<and>
          \<not> errors_Is (fqdn_error env e) ErrNotImplemented \<and>
          fqdn_error env e \<in> set (failures (step_errors env ferr)))"
proof (cases "fst (getComputerNameEx (q_GetComputerNameEx env)
          ComputerNamePhysicalDnsFullyQualified (q_os_state env))")
  case (Panic p)
  from fqdn_Panic [OF Panic] Panic show ?thesis
    by simp
next
  case (Return x)
  obtain name ferr where x: "x = (name, ferr)"
    by (cases x)
  from Return x have q: "fst (getComputerNameEx (q_GetComputerNameEx env)
      ComputerNamePhysicalDnsFullyQualified (q_os_state env)) = Return (name, ferr)"
    by simp
  have len: "length (step_errors env ferr) = 9"
    by (simp add: step_errors_def)
  have nil: "combined (failures (step_errors env ferr)) = None \<longleftrightarrow>
      (\<forall>x. Some x \<in> set (step_errors env ferr) \<longrightarrow> errors_Is x ErrNotImplemented)"
    by (simp add: combined_def failures_Nil_iff)
  have fq: "\<forall>e. ferr = Some e \<longrightarrow>
      step_errors env ferr ! 3 = Some (fqdn_error env e) \<and>
      \<not> errors_Is (fqdn_error env e) ErrNotImplemented \<and>
      fqdn_error env e \<in> set (failures (step_errors env ferr))"
    by (auto simp: set_failures step_errors_def fqdn_error_def)
  from newHost_run [OF q] len nil fq show ?thesis
    by (simp only: q go.case prod.case simp_thms)
qed

text \<open>
  On \<open>env_partial\<close> the architecture (not implemented) and the FQDN are left empty,
  the boot time is left zero, and the error lists the boot time's error and then
  the error the fqdn step formats.
\<close>

theorem newHost_partial_tolerance_witness:
  "fst (getComputerNameEx (q_GetComputerNameEx env_partial)
     ComputerNamePhysicalDnsFullyQualified (q_os_state env_partial)) =
     Return ('''', Some (WrapError
       ''could not get windows FQDN: could not get windows.ComputerNamePhysicalDnsFullyQualified: ''
       (Errno 5))) \<and>
   newHost env_partial =
     Return (\<lparr>info = \<lparr>Architecture = '''', BootTime = 0, Hostname = ''host1'', FQDN = '''',
                      IPs = [''10.0.0.7''], MACs = [''00:11:22:33:44:55''],
                      KernelVersion = ''10.0.19041'',
                      OS = Some \<lparr>Name = ''Windows 10'', Version = ''10.0'', Build = ''19041''\<rparr>,
                      Timezone = ''UTC'', TimezoneOffsetSec = 0, UniqueID = ''id-1''\<rparr>\<rparr>,
             Some (MultiError
               [ErrorString ''boot time unavailable'',
                ErrorString ''could not get windows FQDN: could not get windows FQDN: could not get windows.ComputerNamePhysicalDnsFullyQualified: Access is denied.'']))"
proof -
  have q: "fst (getComputerNameEx (q_GetComputerNameEx env_partial)
     ComputerNamePhysicalDnsFullyQualified (q_os_state env_partial)) =
     Return ('''', Some (WrapError
       ''could not get windows FQDN: could not get windows.ComputerNamePhysicalDnsFullyQualified: ''
       (Errno 5)))"
    by (simp add: env_partial_def env_ok_def getComputerNameEx_os_fail ERROR_MORE_DATA_def)
  from newHost_partial_tolerance [of env_partial]
  have "newHost env_partial =
      Return (\<lparr>info = expected_info env_partial '''' (Some (WrapError
          ''could not get windows FQDN: could not get windows.ComputerNamePhysicalDnsFullyQualified: ''
          (Errno 5)))\<rparr>,
        combined (failures (step_errors env_partial (Some (WrapError
          ''could not get windows FQDN: could not get windows.ComputerNamePhysicalDnsFullyQualified: ''
          (Errno 5))))))"
    by (simp only: q go.case prod.case)
  with q show ?thesis
    by (simp add: expected_info_def step_errors_def combined_def fqdn_error_def
        env_partial_def env_ok_def winapi_text_def)
qed

text \<open>
  C2, as stated, fails at the fqdn step. When the OS call fails with
  \<open>ErrNotImplemented\<close>, \<open>getComputerNameEx\<close> returns an error that wraps it, so
  \<open>errors.Is\<close> holds of the query's error; \<open>fqdn\<close> formats it with \<open>%s\<close>, and the
  combined error of \<open>newHost\<close> is not nil: it holds the formatted error.
\<close>

theorem newHost_fqdn_NotImplemented_reported:
  "fst (getComputerNameEx (os_fail ErrNotImplemented) ComputerNamePhysicalDnsFullyQualified ()) =
     Return ('''', Some (WrapError
       ''could not get windows FQDN: could not get windows.ComputerNamePhysicalDnsFullyQualified: ''
       ErrNotImplemented)) \<and>
   errors_Is (WrapError
       ''could not get windows FQDN: could not get windows.ComputerNamePhysicalDnsFullyQualified: ''
       ErrNotImplemented) ErrNotImplemented \<and>
   newHost (env_ok (os_fail ErrNotImplemented)) =
     Return (\<lparr>info = \<lparr>Architecture = ''x86_64'', BootTime = 1700000000, Hostname = ''host1'',
                      FQDN = '''', IPs = [''10.0.0.7''], MACs = [''00:11:22:33:44:55''],
                      KernelVersion = ''10.0.19041'',
                      OS = Some \<lparr>Name = ''Windows 10'', Version = ''10.0'', Build = ''19041''\<rparr>,
                      Timezone = ''UTC'', TimezoneOffsetSec = 0, UniqueID = ''id-1''\<rparr>\<rparr>,
             Some (MultiError
               [ErrorString ''could not get windows FQDN: could not get windows FQDN: could not get windows.ComputerNamePhysicalDnsFullyQualified: unimplemented'']))"
proof -
  have q: "fst (getComputerNameEx (q_GetComputerNameEx (env_ok (os_fail ErrNotImplemented)))
     ComputerNamePhysicalDnsFullyQualified (q_os_state (env_ok (os_fail ErrNotImplemented)))) =
     Return ('''', Some (WrapError
       ''could not get windows FQDN: could not get windows.ComputerNamePhysicalDnsFullyQualified: ''
       ErrNotImplemented))"
    by (simp add: env_ok_def getComputerNameEx_os_fail ERROR_MORE_DATA_def)
  from newHost_run [OF q] q show ?thesis
    by (simp add: expected_info_def step_errors_def combined_def fqdn_error_def env_ok_def)
qed

text \<open>
  C2, as amended. Let \<open>getComputerNameEx\<close> return. No element of the combined error
  satisfies \<open>errors.Is(_, ErrNotImplemented)\<close>. For each of the seven steps that
  hand their query's error to \<open>addErr\<close> as it is (architecture, bootTime, hostname,
  network, kernelVersion, os, uniqueID): an error of the query for which
  \<open>errors.Is(err, ErrNotImplemented)\<close> holds is not in the combined error, and the
  fields of the step are left at their zero values. When each failing query among
  these seven fails so and \<open>getComputerNameEx\<close> succeeds, \<open>newHost\<close> returns a nil
  error. Every error of \<open>getComputerNameEx\<close> is recorded, formatted by the fqdn
  step, and leaves FQDN empty.
\<close>

theorem newHost_NotImplemented_suppressed:
  assumes "fst (getComputerNameEx (q_GetComputerNameEx env)
             ComputerNamePhysicalDnsFullyQualified (q_os_state env)) = Return (name, ferr)"
  shows "case newHost env of
           Panic p \<Rightarrow> False
         | Return (h, err) \<Rightarrow>
             (\<forall>x \<in> set (errors_of err). \<not> errors_Is x ErrNotImplemented) \<and>
             (\<forall>(e, zero) \<in> set (direct_steps env (info h)).
                \<forall>x. e = Some x \<and> errors_Is x ErrNotImplemented \<longrightarrow>
                  x \<notin> set (errors_of err) \<and> zero) \<and>
             ((\<forall>(e, zero) \<in> set (direct_steps env (info h)).
                 \<forall>x. e = Some x \<longrightarrow> errors_Is x ErrNotImplemented) \<and> ferr = None
                \<longrightarrow> err = None) \<and>
             (\<forall>x. ferr = Some x \<longrightarrow>
                fqdn_error env x \<in> set (errors_of err) \<and> FQDN (info h) = '''')"
proof -
  let ?F = "failures (step_errors env ferr)"
  let ?i = "expected_info env name ferr"
  have a: "\<forall>x \<in> set ?F. \<not> errors_Is x ErrNotImplemented"
    by (simp add: set_failures)
  have b: "\<forall>(e, zero) \<in> set (direct_steps env ?i).
      \<forall>x. e = Some x \<and> errors_Is x ErrNotImplemented \<longrightarrow> x \<notin> set ?F \<and> zero"
    by (auto simp: direct_steps_def expected_info_def set_failures)
  have c: "(\<forall>(e, zero) \<in> set (direct_steps env ?i).
       \<forall>x. e = Some x \<longrightarrow> errors_Is x ErrNotImplemented) \<and> ferr = None
      \<longrightarrow> combined ?F = None"
    by (auto simp: direct_steps_def combined_def failures_Nil_iff step_errors_def)
  have d: "\<forall>x. ferr = Some x \<longrightarrow> fqdn_error env x \<in> set ?F \<and> FQDN ?i = ''''"
    by (auto simp: set_failures step_errors_def expected_info_def fqdn_error_def)
  from a b c d show ?thesis
    by (simp only: newHost_run [OF assms] go.case prod.case errors_of_combined
        host.select_convs simp_thms)
qed

text \<open>
  On \<open>env_unimplemented\<close> two queries fail, both not implemented: the error is nil
  and the two fields are empty.
\<close>

theorem newHost_NotImplemented_suppressed_witness:
  "fst (getComputerNameEx (q_GetComputerNameEx env_unimplemented)
     ComputerNamePhysicalDnsFullyQualified (q_os_state env_unimplemented)) =
     Return (''h1.a.'', None) \<and>
   newHost env_unimplemented =
     Return (\<lparr>info = \<lparr>Architecture = '''', BootTime = 1700000000, Hostname = ''host1'',
                      FQDN = ''h1.a'', IPs = [''10.0.0.7''], MACs = [''00:11:22:33:44:55''],
                      KernelVersion = ''10.0.19041'',
                      OS = Some \<lparr>Name = ''Windows 10'', Version = ''10.0'', Build = ''19041''\<rparr>,
                      Timezone = ''UTC'', TimezoneOffsetSec = 0, UniqueID = ''''\<rparr>\<rparr>,
             None) \<and>
   errors_Is (WrapError ''machine id: '' ErrNotImplemented) ErrNotImplemented"
proof -
  have q: "fst (getComputerNameEx (q_GetComputerNameEx env_unimplemented)
     ComputerNamePhysicalDnsFullyQualified (q_os_state env_unimplemented)) =
     Return (''h1.a.'', None)"
    by (simp add: env_unimplemented_def env_ok_def getComputerNameEx_os_name UTF16ToString_h1)
  have run: "newHost env_unimplemented =
     Return (\<lparr>info = \<lparr>Architecture = '''', BootTime = 1700000000, Hostname = ''host1'',
                      FQDN = ''h1.a'', IPs = [''10.0.0.7''], MACs = [''00:11:22:33:44:55''],
                      KernelVersion = ''10.0.19041'',
                      OS = Some \<lparr>Name = ''Windows 10'', Version = ''10.0'', Build = ''19041''\<rparr>,
                      Timezone = ''UTC'', TimezoneOffsetSec = 0, UniqueID = ''''\<rparr>\<rparr>,
             None)"
    using newHost_run [OF q]
    by (simp add: expected_info_def step_errors_def combined_def env_unimplemented_def
        env_ok_def TrimSuffix_def HasSuffix_def)
  from newHost_NotImplemented_suppressed [OF q] q run show ?thesis
    by simp
qed

text \<open>
  C7, as stated, fails: when the OS reports the name \<open>host..\<close>, the FQDN that
  \<open>newHost\<close> stores is \<open>host.\<close>, which ends with a dot. \<open>strings.TrimSuffix\<close> removes
  one dot.
\<close>

theorem newHost_FQDN_two_dots:
  "fst (getComputerNameEx (os_name [0x68, 0x6F, 0x73, 0x74, 0x2E, 0x2E])
     ComputerNamePhysicalDnsFullyQualified ()) = Return (''host..'', None) \<and>
   newHost (env_ok (os_name [0x68, 0x6F, 0x73, 0x74, 0x2E, 0x2E])) =
     Return (\<lparr>info = \<lparr>Architecture = ''x86_64'', BootTime = 1700000000, Hostname = ''host1'',
                      FQDN = ''host.'', IPs = [''10.0.0.7''], MACs = [''00:11:22:33:44:55''],
                      KernelVersion = ''10.0.19041'',
                      OS = Some \<lparr>Name = ''Windows 10'', Version = ''10.0'', Build = ''19041''\<rparr>,
                      Timezone = ''UTC'', TimezoneOffsetSec = 0, UniqueID = ''id-1''\<rparr>\<rparr>,
             None) \<and>
   HasSuffix ''host.'' ''.''"
proof -
  have q: "fst (getComputerNameEx
       (q_GetComputerNameEx (env_ok (os_name [0x68, 0x6F, 0x73, 0x74, 0x2E, 0x2E])))
       ComputerNamePhysicalDnsFullyQualified
       (q_os_state (env_ok (os_name [0x68, 0x6F, 0x73, 0x74, 0x2E, 0x2E])))) =
     Return (''host..'', None)"
    by (simp add: env_ok_def getComputerNameEx_os_name UTF16ToString_hostdd)
  from newHost_run [OF q] q show ?thesis
    by (simp add: expected_info_def step_errors_def combined_def env_ok_def
        TrimSuffix_def HasSuffix_def)
qed

text \<open>
  C7, as amended. When \<open>getComputerNameEx\<close> returns, the FQDN stored is the string
  it returned with one trailing dot removed if there is one (empty when it returned
  an error); it does not end with a dot unless the string returned ends with two
  dots.
\<close>

theorem newHost_FQDN_one_dot_trimmed:
  assumes "fst (getComputerNameEx (q_GetComputerNameEx env)
             ComputerNamePhysicalDnsFullyQualified (q_os_state env)) = Return (name, ferr)"
  shows "case newHost env of
           Panic p \<Rightarrow> False
         | Return (h, err) \<Rightarrow>
             FQDN (info h) = (if ferr = None then TrimSuffix name ''.'' else '''') \<and>
             (\<not> HasSuffix name ''..'' \<longrightarrow> \<not> HasSuffix (FQDN (info h)) ''.'')"
proof -
  have "\<not> HasSuffix name ''..'' \<longrightarrow>
      \<not> HasSuffix (if ferr = None then TrimSuffix name ''.'' else '''') ''.''"
    by (simp add: TrimSuffix_dot) (simp add: HasSuffix_def)
  then show ?thesis
    by (simp add: newHost_run [OF assms] expected_info_def)
qed

text \<open>The name \<open>h1.a.\<close> is stored as \<open>h1.a\<close>.\<close>

theorem newHost_FQDN_one_dot_trimmed_witness:
  "fst (getComputerNameEx (q_GetComputerNameEx env_unimplemented)
     ComputerNamePhysicalDnsFullyQualified (q_os_state env_unimplemented)) =
     Return (''h1.a.'', None) \<and>
   \<not> HasSuffix ''h1.a.'' ''..'' \<and>
   (case newHost env_unimplemented of
      Panic p \<Rightarrow> False
    | Return (h, err) \<Rightarrow> FQDN (info h) = ''h1.a'' \<and> \<not> HasSuffix (FQDN (info h)) ''.'')"
proof -
  have q: "fst (getComputerNameEx (q_GetComputerNameEx env_unimplemented)
     ComputerNamePhysicalDnsFullyQualified (q_os_state env_unimplemented)) =
     Return (''h1.a.'', None)"
    by (simp add: env_unimplemented_def env_ok_def getComputerNameEx_os_name UTF16ToString_h1)
  have s: "\<not> HasSuffix ''h1.a.'' ''..''"
    by (simp add: HasSuffix_def)
  have t: "TrimSuffix ''h1.a.'' ''.'' = ''h1.a''"
    by (simp add: TrimSuffix_def HasSuffix_def)
  from newHost_FQDN_one_dot_trimmed [OF q] q s t show ?thesis
    by (auto split: go.splits)
qed




end
